theory Spec2Isabelle
  imports Complex_Main "HOL-Library.AList"
begin

section \<open>Exceptions and the sequencing of fallible steps\<close>

text \<open>
  The Python exceptions that can reach the handlers of \<open>text_classification_qqp.py\<close>.
  All of them derive from \<open>Exception\<close>, so \<open>except Exception\<close> catches every value of
  this type. \<open>ValueError\<close> carries an (English) rendering of its message.
\<close>

datatype error =
    SourceUnavailable
  | ParseFailure
  | AnalysisException
  | KeyError
  | ValueError string
  | RuntimeError string

definition and_then :: "error + 'a \<Rightarrow> ('a \<Rightarrow> error + 'b) \<Rightarrow> error + 'b" where
  "and_then r f = (case r of Inl e \<Rightarrow> Inl e | Inr x \<Rightarrow> f x)"

text \<open>A list comprehension whose element expression may raise stops at the first raise.\<close>

fun map_e :: "('a \<Rightarrow> error + 'b) \<Rightarrow> 'a list \<Rightarrow> error + 'b list" where
  "map_e f [] = Inr []"
| "map_e f (x # xs) =
     and_then (f x) (\<lambda>y. and_then (map_e f xs) (\<lambda>ys. Inr (y # ys)))"

section \<open>Characters\<close>

text \<open>
  A character is a code point below 256 (Latin-1); text with other code points is
  outside the model. On this range, lowering a letter adds 32 to \<open>A\<close>..\<open>Z\<close> and to the
  accented capitals 192..222 (215, the multiplication sign, is no letter), and the
  whitespace of Python's \<open>str.split()\<close> is 9..13, 28..32, 133 and 160.
\<close>

definition lower_char :: "char \<Rightarrow> char" where
  "lower_char c =
     (let n = (of_char c :: nat)
      in if (65 \<le> n \<and> n \<le> 90) \<or> (192 \<le> n \<and> n \<le> 222 \<and> n \<noteq> 215)
         then char_of (n + 32) else c)"

definition is_space :: "char \<Rightarrow> bool" where
  "is_space c =
     ((of_char c :: nat) \<in> {9, 10, 11, 12, 13, 28, 29, 30, 31, 32, 133, 160})"

definition py_lower :: "string \<Rightarrow> string" where
  "py_lower s = map lower_char s"

section \<open>The tabular data engine\<close>

text \<open>
  The code drives a Spark session. The model keeps the part of a DataFrame the program
  observes: the column names, and the rows as named cells. A cell is NULL, a string or a
  double; a double is a finite number (idealised as a real, so \<open>-0.0\<close> and \<open>0.0\<close>
  coincide), NaN or an infinity.
\<close>

datatype double = Finite real | NaN | PosInf | NegInf

datatype cell = Null | Str string | Dbl double

type_synonym row = "(string \<times> cell) list"

record dataframe =
  columns :: "string list"
  rows :: "row list"

text \<open>
  What the program cannot decide by itself is a parameter: what
  \<open>spark.read.csv(path, header=True, sep="\t")\<close> yields for a path (an exception or a
  table), how the engine casts a string to a double (\<open>None\<close>: the cast yields NULL), and
  how it renders a double as a string.
\<close>

record engine =
  read_csv :: "string \<Rightarrow> error + dataframe"
  cast_double :: "string \<Rightarrow> double option"
  double_to_string :: "double \<Rightarrow> string"

text \<open>The column expressions the program builds, and the predicates it filters with.\<close>

datatype vexpr =
    Col string
  | Lit cell
  | Cast_double vexpr
  | Concat_ws string "vexpr list"

datatype bexpr =
    IsNotNull vexpr
  | IsNull vexpr
  | EqLit vexpr double
  | Or bexpr bexpr

text \<open>
  The session leaves \<open>spark.sql.caseSensitive\<close> at its default, so the engine resolves a
  column reference without regard to letter case. The reader makes the header names
  distinct up to case, so a reference matches at most one column; the model takes the
  first match. Python's \<open>"is_duplicate" in data.columns\<close> and the access to a collected
  row compare the names exactly.
\<close>

definition ci_eq :: "string \<Rightarrow> string \<Rightarrow> bool" where
  "ci_eq a b = (py_lower a = py_lower b)"

definition has_column :: "string list \<Rightarrow> string \<Rightarrow> bool" where
  "has_column cs n = list_ex (\<lambda>c. ci_eq c n) cs"

fun field :: "row \<Rightarrow> string \<Rightarrow> cell" where
  "field [] n = Null"
| "field ((k, v) # r) n = (if ci_eq k n then v else field r n)"

definition put_field :: "string \<Rightarrow> cell \<Rightarrow> row \<Rightarrow> row" where
  "put_field n v r =
     (if has_column (map fst r) n
      then map (\<lambda>(k, x). if ci_eq k n then (n, v) else (k, x)) r
      else r @ [(n, v)])"

definition put_column :: "string \<Rightarrow> string list \<Rightarrow> string list" where
  "put_column n cs =
     (if has_column cs n then map (\<lambda>c. if ci_eq c n then n else c) cs else cs @ [n])"

definition item :: "row \<Rightarrow> string \<Rightarrow> cell" where
  "item r n = (case map_of r n of Some c \<Rightarrow> c | None \<Rightarrow> Null)"

fun vrefs :: "vexpr \<Rightarrow> string list" where
  "vrefs (Col n) = [n]"
| "vrefs (Lit c) = []"
| "vrefs (Cast_double e) = vrefs e"
| "vrefs (Concat_ws sep es) = concat (map vrefs es)"

fun brefs :: "bexpr \<Rightarrow> string list" where
  "brefs (IsNotNull e) = vrefs e"
| "brefs (IsNull e) = vrefs e"
| "brefs (EqLit e d) = vrefs e"
| "brefs (Or a b) = brefs a @ brefs b"

definition to_double :: "engine \<Rightarrow> cell \<Rightarrow> cell" where
  "to_double eng c =
     (case c of
        Null \<Rightarrow> Null
      | Dbl d \<Rightarrow> Dbl d
      | Str s \<Rightarrow> (case cast_double eng s of None \<Rightarrow> Null | Some d \<Rightarrow> Dbl d))"

fun join :: "string \<Rightarrow> string list \<Rightarrow> string" where
  "join sep [] = []"
| "join sep [s] = s"
| "join sep (s # t # ss) = s @ sep @ join sep (t # ss)"

text \<open>\<open>concat_ws\<close> skips NULL arguments and never yields NULL.\<close>

fun ws_parts :: "engine \<Rightarrow> cell list \<Rightarrow> string list" where
  "ws_parts eng [] = []"
| "ws_parts eng (Null # cs) = ws_parts eng cs"
| "ws_parts eng (Str s # cs) = s # ws_parts eng cs"
| "ws_parts eng (Dbl d # cs) = double_to_string eng d # ws_parts eng cs"

fun veval :: "engine \<Rightarrow> row \<Rightarrow> vexpr \<Rightarrow> cell" where
  "veval eng r (Col n) = field r n"
| "veval eng r (Lit c) = c"
| "veval eng r (Cast_double e) = to_double eng (veval eng r e)"
| "veval eng r (Concat_ws sep es) = Str (join sep (ws_parts eng (map (veval eng r) es)))"

text \<open>Predicates have SQL's three values; \<open>None\<close> is NULL.\<close>

fun sql_or :: "bool option \<Rightarrow> bool option \<Rightarrow> bool option" where
  "sql_or (Some True) b = Some True"
| "sql_or a (Some True) = Some True"
| "sql_or (Some False) (Some False) = Some False"
| "sql_or a b = None"

fun beval :: "engine \<Rightarrow> row \<Rightarrow> bexpr \<Rightarrow> bool option" where
  "beval eng r (IsNotNull e) = Some (veval eng r e \<noteq> Null)"
| "beval eng r (IsNull e) = Some (veval eng r e = Null)"
| "beval eng r (EqLit e d) =
     (case to_double eng (veval eng r e) of Dbl x \<Rightarrow> Some (x = d) | _ \<Rightarrow> None)"
| "beval eng r (Or a b) = sql_or (beval eng r a) (beval eng r b)"

text \<open>
  The DataFrame operations. An expression that names a column the frame does not have
  (in any letter case) is rejected when the operation is called (\<open>AnalysisException\<close>).
  \<open>withColumn\<close> replaces a column of the same name up to case, which takes the new name,
  and appends a new one otherwise; \<open>filter\<close> keeps the rows whose predicate is true
  (neither false nor NULL); \<open>select\<close> names its columns as the call writes them.
\<close>

definition withColumn :: "engine \<Rightarrow> string \<Rightarrow> vexpr \<Rightarrow> dataframe \<Rightarrow> error + dataframe" where
  "withColumn eng n e df =
     (if list_all (has_column (columns df)) (vrefs e)
      then Inr \<lparr>columns = put_column n (columns df),
                rows = map (\<lambda>r. put_field n (veval eng r e) r) (rows df)\<rparr>
      else Inl AnalysisException)"

definition filter_df :: "engine \<Rightarrow> bexpr \<Rightarrow> dataframe \<Rightarrow> error + dataframe" where
  "filter_df eng p df =
     (if list_all (has_column (columns df)) (brefs p)
      then Inr \<lparr>columns = columns df,
                rows = filter (\<lambda>r. beval eng r p = Some True) (rows df)\<rparr>
      else Inl AnalysisException)"

definition select_df :: "string list \<Rightarrow> dataframe \<Rightarrow> error + dataframe" where
  "select_df ns df =
     (if list_all (has_column (columns df)) ns
      then Inr \<lparr>columns = ns, rows = map (\<lambda>r. map (\<lambda>n. (n, field r n)) ns) (rows df)\<rparr>
      else Inl AnalysisException)"

definition count_df :: "dataframe \<Rightarrow> nat" where
  "count_df df = length (rows df)"

definition createDataFrame :: "(string \<times> real) list \<Rightarrow> string list \<Rightarrow> dataframe" where
  "createDataFrame data schema =
     \<lparr>columns = schema,
      rows = map (\<lambda>(t, l). zip schema [Str t, Dbl (Finite l)]) data\<rparr>"

section \<open>The dataset loader: \<open>load_qqp_data\<close>\<close>

text \<open>The three hard-coded records of the \<open>except\<close> branch.\<close>

definition sample_data :: "(string \<times> real) list" where
  "sample_data =
     [(''How do I improve my English? [SEP] What are some ways to improve my English?'', 1),
      (''What is the capital of France? [SEP] What is the population of Germany?'', 0),
      (''How to lose weight fast? [SEP] What are some effective ways to lose weight quickly?'', 1)]"

definition sample_dataset :: dataframe where
  "sample_dataset = createDataFrame sample_data [''text'', ''label'']"

text \<open>The label step: the \<open>if\<close>/\<open>elif\<close> of the \<open>try\<close> body.\<close>

definition label_step :: "engine \<Rightarrow> bool \<Rightarrow> dataframe \<Rightarrow> error + dataframe" where
  "label_step eng is_test data =
     (if \<not> is_test \<and> ''is_duplicate'' \<in> set (columns data) then
        and_then (withColumn eng ''label'' (Cast_double (Col ''is_duplicate'')) data) (\<lambda>data.
        and_then (filter_df eng (IsNotNull (Col ''label'')) data) (\<lambda>data.
        filter_df eng (Or (EqLit (Col ''label'') (Finite 0)) (EqLit (Col ''label'') (Finite 1)))
          data))
      else if is_test then withColumn eng ''label'' (Lit (Dbl (Finite 0))) data
      else Inr data)"

text \<open>The body of the \<open>try\<close>: every raise inside it is an \<open>Inl\<close>.\<close>

definition load_try :: "engine \<Rightarrow> string \<Rightarrow> bool \<Rightarrow> error + dataframe" where
  "load_try eng file_path is_test =
     and_then (read_csv eng file_path) (\<lambda>data.
     and_then (label_step eng is_test data) (\<lambda>data.
     and_then (withColumn eng ''text''
                 (Concat_ws '' [SEP] '' [Col ''question1'', Col ''question2'']) data) (\<lambda>data.
     and_then (select_df [''text'', ''label''] data) (\<lambda>data.
     and_then (filter_df eng (IsNotNull (Col ''text'')) data) (\<lambda>data.
     if count_df data = 0
     then Inl (ValueError ''dataset is empty after processing'')
     else Inr data)))))"

text \<open>
  The function itself: \<open>except Exception\<close> turns every failure of the body into the
  sample dataset. The result type keeps the error side, so that "does not raise" is a
  statement about the function and not a convention of the model.
\<close>

definition load_qqp_data :: "engine \<Rightarrow> string \<Rightarrow> bool \<Rightarrow> error + dataframe" where
  "load_qqp_data eng file_path is_test =
     (case load_try eng file_path is_test of
        Inr data \<Rightarrow> Inr data
      | Inl e \<Rightarrow> Inr sample_dataset)"

text \<open>What a consumer reads from a frame: the text and the label of each row.\<close>

definition texts :: "dataframe \<Rightarrow> cell list" where
  "texts df = map (\<lambda>r. item r ''text'') (rows df)"

definition labels :: "dataframe \<Rightarrow> cell list" where
  "labels df = map (\<lambda>r. item r ''label'') (rows df)"

section \<open>Tokenisation and vectorisation\<close>

text \<open>
  \<open>text.lower().split()\<close>: the text is lowered, then cut at every run of whitespace;
  no token is empty.
\<close>

fun split_from :: "string \<Rightarrow> string \<Rightarrow> string list" where
  "split_from acc [] = (if acc = [] then [] else [acc])"
| "split_from acc (c # cs) =
     (if is_space c
      then (if acc = [] then split_from [] cs else acc # split_from [] cs)
      else split_from (acc @ [c]) cs)"

definition py_split :: "string \<Rightarrow> string list" where
  "py_split s = split_from [] s"

text \<open>\<open>preprocess_text\<close>: a value that is not a \<open>str\<close> has no tokens.\<close>

fun preprocess_text :: "cell \<Rightarrow> string list" where
  "preprocess_text (Str s) = py_split (py_lower s)"
| "preprocess_text c = []"

text \<open>
  The embedding model, a gensim \<open>FastText\<close> object: the trained vocabulary with the
  vector of each of its words, the vector the model composes from character n-grams
  for a word outside the vocabulary (the zero vector when the word has no n-gram), the
  number of n-gram buckets and the configured dimension. Vector components are
  idealised as reals.

  \<open>word in model.wv\<close> looks the word up in the vocabulary only when the model has no
  n-gram buckets; with buckets it is true of every word. \<open>model.wv[word]\<close> is the
  vocabulary's vector for a known word, the n-gram vector for another one, and a
  \<open>KeyError\<close> for another one when there are no buckets. The call of the program
  (\<open>FastText(sentences=..., vector_size=100, window=5, min_count=1, workers=4, sg=1,
  epochs=epochs)\<close>) leaves \<open>bucket\<close> at its default of 2000000.
\<close>

record fasttext_model =
  vocab :: "string \<Rightarrow> real list option"
  ngram_vector :: "string \<Rightarrow> real list"
  bucket :: nat
  vector_size :: nat

definition wv_contains :: "fasttext_model \<Rightarrow> string \<Rightarrow> bool" where
  "wv_contains model word = (if bucket model = 0 then vocab model word \<noteq> None else True)"

definition wv_getitem :: "fasttext_model \<Rightarrow> string \<Rightarrow> error + real list" where
  "wv_getitem model word =
     (case vocab model word of
        Some v \<Rightarrow> Inr v
      | None \<Rightarrow> if bucket model = 0 then Inl KeyError else Inr (ngram_vector model word))"

text \<open>\<open>np.mean(word_vectors, axis=0)\<close>: the column sums, each divided by the count.\<close>

fun vsum :: "real list list \<Rightarrow> real list" where
  "vsum [] = []"
| "vsum [v] = v"
| "vsum (v # w # vs) = map2 (+) v (vsum (w # vs))"

definition np_mean_axis0 :: "real list list \<Rightarrow> real list" where
  "np_mean_axis0 vs = map (\<lambda>x. x / real (length vs)) (vsum vs)"

definition text_to_vector :: "cell \<Rightarrow> fasttext_model \<Rightarrow> error + real list" where
  "text_to_vector text model =
     (let words = preprocess_text text
      in and_then (map_e (wv_getitem model) (filter (wv_contains model) words))
           (\<lambda>word_vectors.
              if length word_vectors = 0
              then Inr (replicate (vector_size model) 0)
              else Inr (np_mean_axis0 word_vectors)))"

text \<open>
  The vectoriser as the specification words it: drop the tokens that are not in the
  vocabulary, and take the mean of the others component by component; the zero vector
  when none is left.
\<close>

definition in_vocab :: "fasttext_model \<Rightarrow> string list \<Rightarrow> string list" where
  "in_vocab model ws = filter (\<lambda>w. vocab model w \<noteq> None) ws"

definition vectorize_spec :: "fasttext_model \<Rightarrow> string list \<Rightarrow> real list" where
  "vectorize_spec model ws =
     (let known = in_vocab model ws
      in if known = [] then replicate (vector_size model) 0
         else map (\<lambda>i. (\<Sum>w\<leftarrow>known. the (vocab model w) ! i) / real (length known))
                [0..<vector_size model])"

text \<open>A model is well formed when every vector has the configured dimension.\<close>

definition wf_model :: "fasttext_model \<Rightarrow> bool" where
  "wf_model model =
     ((\<forall>w v. vocab model w = Some v \<longrightarrow> length v = vector_size model)
      \<and> (\<forall>w. length (ngram_vector model w) = vector_size model))"

text \<open>The vector \<open>model.wv[word]\<close> yields when the model has n-gram buckets.\<close>

definition word_vector :: "fasttext_model \<Rightarrow> string \<Rightarrow> real list" where
  "word_vector model w = (case vocab model w of Some v \<Rightarrow> v | None \<Rightarrow> ngram_vector model w)"

section \<open>Training and evaluating the FastText variant: \<open>train_fasttext\<close>\<close>

text \<open>
  The libraries are parameters: the embedding trainer (\<open>FastText(sentences, epochs)\<close>,
  its other hyper-parameters being constants of the call), Python's \<open>float\<close> on a
  string, the classifier (\<open>fit\<close>, \<open>predict\<close>) and the three weighted scores. Each of them
  may raise.
\<close>

record 'c toolkit =
  FastText :: "string list list \<Rightarrow> nat \<Rightarrow> error + fasttext_model"
  to_float :: "string \<Rightarrow> double option"
  fit :: "real list list \<Rightarrow> double list \<Rightarrow> error + 'c"
  predict :: "'c \<Rightarrow> real list list \<Rightarrow> error + double list"
  precision_score :: "double list \<Rightarrow> double list \<Rightarrow> error + real"
  recall_score :: "double list \<Rightarrow> double list \<Rightarrow> error + real"
  f1_score :: "double list \<Rightarrow> double list \<Rightarrow> error + real"

text \<open>
  Wall-clock time is a clock value threaded through the function: each stage of the
  body advances it by that stage's duration, and \<open>time.time()\<close> reads it.
\<close>

datatype stage = Prepare | Embed | Vectorize | Fit | Predict | Score

definition toPandas :: "dataframe \<Rightarrow> dataframe" where
  "toPandas df = df"

definition is_na :: "cell \<Rightarrow> bool" where
  "is_na c = (c = Null \<or> c = Dbl NaN)"

definition dropna :: "dataframe \<Rightarrow> dataframe" where
  "dropna df =
     \<lparr>columns = columns df,
      rows = filter (\<lambda>r. list_all (\<lambda>n. \<not> is_na (item r n)) (columns df)) (rows df)\<rparr>"

definition column :: "dataframe \<Rightarrow> string \<Rightarrow> error + cell list" where
  "column df n =
     (if n \<in> set (columns df) then Inr (map (\<lambda>r. item r n) (rows df)) else Inl KeyError)"

definition astype_float :: "'c toolkit \<Rightarrow> cell \<Rightarrow> error + double" where
  "astype_float tk c =
     (case c of
        Dbl d \<Rightarrow> Inr d
      | Null \<Rightarrow> Inr NaN
      | Str s \<Rightarrow> (case to_float tk s of
                   Some d \<Rightarrow> Inr d
                 | None \<Rightarrow> Inl (ValueError ''could not convert string to float'')))"

text \<open>\<open>df["label"] = df["label"].astype(float)\<close>\<close>

definition label_astype_float :: "'c toolkit \<Rightarrow> dataframe \<Rightarrow> error + dataframe" where
  "label_astype_float tk df =
     and_then (column df ''label'') (\<lambda>ls.
     and_then (map_e (astype_float tk) ls) (\<lambda>fs.
     Inr \<lparr>columns = columns df,
          rows = map2 (\<lambda>r d. AList.update ''label'' (Dbl d) r) (rows df) fs\<rparr>))"

definition doubles :: "cell list \<Rightarrow> double list" where
  "doubles cs = map (\<lambda>c. case c of Dbl d \<Rightarrow> d | _ \<Rightarrow> NaN) cs"

text \<open>The conversion to pandas, \<open>dropna\<close> and the label conversion of both frames.\<close>

definition prepare :: "'c toolkit \<Rightarrow> dataframe \<Rightarrow> dataframe \<Rightarrow> error + dataframe \<times> dataframe" where
  "prepare tk train_data test_data =
     (let train_pandas = dropna (toPandas train_data);
          test_pandas = dropna (toPandas test_data)
      in and_then (label_astype_float tk train_pandas) (\<lambda>train_pandas.
         and_then (label_astype_float tk test_pandas) (\<lambda>test_pandas.
         Inr (train_pandas, test_pandas))))"

text \<open>The body up to the trained embedding model.\<close>

definition fasttext_stage ::
  "'c toolkit \<Rightarrow> (stage \<Rightarrow> real) \<Rightarrow> real \<Rightarrow> dataframe \<Rightarrow> dataframe \<Rightarrow> nat
     \<Rightarrow> error + dataframe \<times> dataframe \<times> fasttext_model \<times> real" where
  "fasttext_stage tk dur now train_data test_data epochs =
     and_then (prepare tk train_data test_data) (\<lambda>(train_pandas, test_pandas).
     let now = now + dur Prepare in
     and_then (column train_pandas ''text'') (\<lambda>train_texts.
     let train_sentences = map preprocess_text train_texts in
     and_then (FastText tk train_sentences epochs) (\<lambda>fasttext_model.
     let now = now + dur Embed in
     Inr (train_pandas, test_pandas, fasttext_model, now))))"

text \<open>\<open>np.mean(ft_predictions == y_test)\<close>; the mean of nothing is NaN.\<close>

definition np_eq :: "double \<Rightarrow> double \<Rightarrow> bool" where
  "np_eq a b = (a = b \<and> a \<noteq> NaN)"

definition accuracy :: "double list \<Rightarrow> double list \<Rightarrow> error + double" where
  "accuracy preds ys =
     (if length preds \<noteq> length ys then Inl (ValueError ''operands could not be broadcast'')
      else if ys = [] then Inr NaN
      else Inr (Finite (real (length (filter (\<lambda>(p, y). np_eq p y) (zip preds ys)))
                        / real (length ys))))"

type_synonym metrics = "double \<times> real \<times> real \<times> real"

definition train_fasttext ::
  "'c toolkit \<Rightarrow> (stage \<Rightarrow> real) \<Rightarrow> real \<Rightarrow> dataframe \<Rightarrow> dataframe \<Rightarrow> nat
     \<Rightarrow> error + metrics \<times> real" where
  "train_fasttext tk dur now train_data test_data epochs =
     (let start_time = now in
      and_then (fasttext_stage tk dur now train_data test_data epochs)
        (\<lambda>(train_pandas, test_pandas, fasttext_model, now).
      and_then (column train_pandas ''text'') (\<lambda>train_texts.
      and_then (map_e (\<lambda>text. text_to_vector text fasttext_model) train_texts) (\<lambda>X_train.
      and_then (column train_pandas ''label'') (\<lambda>train_labels.
      and_then (column test_pandas ''text'') (\<lambda>test_texts.
      and_then (map_e (\<lambda>text. text_to_vector text fasttext_model) test_texts) (\<lambda>X_test.
      and_then (column test_pandas ''label'') (\<lambda>test_labels.
      let y_train = doubles train_labels;
          y_test = doubles test_labels;
          now = now + dur Vectorize in
      and_then (fit tk X_train y_train) (\<lambda>fasttext_clf.
      let now = now + dur Fit in
      and_then (predict tk fasttext_clf X_test) (\<lambda>ft_predictions.
      let now = now + dur Predict in
      and_then (accuracy ft_predictions y_test) (\<lambda>ft_accuracy.
      and_then (precision_score tk y_test ft_predictions) (\<lambda>ft_precision.
      and_then (recall_score tk y_test ft_predictions) (\<lambda>ft_recall.
      and_then (f1_score tk y_test ft_predictions) (\<lambda>ft_f1.
      let now = now + dur Score;
          training_time = now - start_time in
      Inr ((ft_accuracy, ft_precision, ft_recall, ft_f1), training_time)))))))))))))))"

section \<open>The benchmark runner: \<open>main\<close>\<close>

record args =
  data_file :: string
  test_file :: string
  fasttext_epochs :: nat

record results =
  Model :: "string list"
  Accuracy :: "double list"
  Precision :: "real list"
  Recall :: "real list"
  F1 :: "real list"
  Training_Time :: "real list"

text \<open>
  The two loads (both with the default \<open>is_test=False\<close>), the check for NULL labels,
  and the two reads that only print (the label distribution and the first rows).
\<close>

definition main_inputs :: "engine \<Rightarrow> args \<Rightarrow> error + dataframe \<times> dataframe" where
  "main_inputs eng a =
     and_then (load_qqp_data eng (data_file a) False) (\<lambda>train_data.
     and_then (load_qqp_data eng (test_file a) False) (\<lambda>test_data.
     and_then (filter_df eng (IsNull (Col ''label'')) train_data) (\<lambda>null_train.
     and_then (filter_df eng (IsNull (Col ''label'')) test_data) (\<lambda>null_test.
     and_then
       (if count_df null_train > 0 \<or> count_df null_test > 0
        then and_then (filter_df eng (IsNotNull (Col ''label'')) train_data) (\<lambda>train_data.
             and_then (filter_df eng (IsNotNull (Col ''label'')) test_data) (\<lambda>test_data.
             Inr (train_data, test_data)))
        else Inr (train_data, test_data)) (\<lambda>(train_data, test_data).
     and_then (select_df [''label''] train_data) (\<lambda>label_counts.
     and_then (select_df [''text'', ''label''] train_data) (\<lambda>shown.
     Inr (train_data, test_data))))))))"

text \<open>
  The runner up to the filled \<open>results\<close> table; drawing the charts from it and
  stopping the session follow.
\<close>

definition main ::
  "engine \<Rightarrow> 'c toolkit \<Rightarrow> (stage \<Rightarrow> real) \<Rightarrow> real \<Rightarrow> args \<Rightarrow> error + results" where
  "main eng tk dur now a =
     and_then (main_inputs eng a) (\<lambda>(train_data, test_data).
     and_then (train_fasttext tk dur now train_data test_data (fasttext_epochs a))
       (\<lambda>((ft_accuracy, ft_precision, ft_recall, ft_f1), ft_time).
     Inr \<lparr>Model = [] @ [''FastText''],
          Accuracy = [] @ [ft_accuracy],
          Precision = [] @ [ft_precision],
          Recall = [] @ [ft_recall],
          F1 = [] @ [ft_f1],
          Training_Time = [] @ [ft_time]\<rparr>))"

section \<open>Vocabulary for the statements\<close>

text \<open>
  What the loader makes of one source row: the text (the two questions joined by the
  separator), the label, and whether a label passes the filter of the training branch.
\<close>

definition text_of :: "engine \<Rightarrow> row \<Rightarrow> cell" where
  "text_of eng r =
     Str (join '' [SEP] '' (ws_parts eng [field r ''question1'', field r ''question2'']))"

definition valid_label :: "cell \<Rightarrow> bool" where
  "valid_label c = (c = Dbl (Finite 0) \<or> c = Dbl (Finite 1))"

definition labelled :: "bool \<Rightarrow> dataframe \<Rightarrow> bool" where
  "labelled is_test d0 = (\<not> is_test \<and> ''is_duplicate'' \<in> set (columns d0))"

definition label_of :: "engine \<Rightarrow> bool \<Rightarrow> dataframe \<Rightarrow> row \<Rightarrow> cell" where
  "label_of eng is_test d0 r =
     (if labelled is_test d0 then to_double eng (field r ''is_duplicate'')
      else if is_test then Dbl (Finite 0)
      else field r ''label'')"

definition kept_rows :: "engine \<Rightarrow> bool \<Rightarrow> dataframe \<Rightarrow> row list" where
  "kept_rows eng is_test d0 =
     (if labelled is_test d0
      then filter (\<lambda>r. valid_label (to_double eng (field r ''is_duplicate''))) (rows d0)
      else rows d0)"

definition resolves :: "bool \<Rightarrow> dataframe \<Rightarrow> bool" where
  "resolves is_test d0 =
     (has_column (columns d0) ''question1'' \<and> has_column (columns d0) ''question2'' \<and>
      (is_test \<or> ''is_duplicate'' \<in> set (columns d0) \<or> has_column (columns d0) ''label''))"

definition nonempty_text :: "cell \<Rightarrow> bool" where
  "nonempty_text c = (case c of Str s \<Rightarrow> s \<noteq> [] | _ \<Rightarrow> False)"

section \<open>Concrete engines, tables and toolkits\<close>

text \<open>A cast that reads unsigned decimal integers, and yields NULL for anything else.\<close>

definition digit_value :: "char \<Rightarrow> nat option" where
  "digit_value c =
     (let n = (of_char c :: nat) in if 48 \<le> n \<and> n \<le> 57 then Some (n - 48) else None)"

fun digits_nat :: "nat \<Rightarrow> string \<Rightarrow> nat option" where
  "digits_nat acc [] = Some acc"
| "digits_nat acc (c # cs) =
     (case digit_value c of None \<Rightarrow> None | Some d \<Rightarrow> digits_nat (10 * acc + d) cs)"

definition decimal_cast :: "string \<Rightarrow> double option" where
  "decimal_cast s =
     (if s = [] then None else map_option (\<lambda>n. Finite (real n)) (digits_nat 0 s))"

definition unreachable_engine :: engine where
  "unreachable_engine =
     \<lparr>read_csv = (\<lambda>p. Inl SourceUnavailable),
      cast_double = decimal_cast,
      double_to_string = (\<lambda>d. [])\<rparr>"

definition table_engine :: "dataframe \<Rightarrow> engine" where
  "table_engine t =
     \<lparr>read_csv = (\<lambda>p. Inr t),
      cast_double = decimal_cast,
      double_to_string = (\<lambda>d. [])\<rparr>"

definition qqp_table :: dataframe where
  "qqp_table =
     \<lparr>columns = [''id'', ''question1'', ''question2'', ''is_duplicate''],
      rows =
        [[(''id'', Str ''0''), (''question1'', Str ''How old are you?''),
          (''question2'', Str ''What is your age?''), (''is_duplicate'', Str ''1'')],
         [(''id'', Str ''1''), (''question1'', Str ''Is it raining?''),
          (''question2'', Str ''Who wrote Hamlet?''), (''is_duplicate'', Str ''0'')],
         [(''id'', Str ''2''), (''question1'', Str ''Why?''),
          (''question2'', Str ''Why not?''), (''is_duplicate'', Str ''maybe'')],
         [(''id'', Str ''3''), (''question1'', Str ''Where?''),
          (''question2'', Str ''When?''), (''is_duplicate'', Null)],
         [(''id'', Str ''4''), (''question1'', Str ''Which one?''),
          (''question2'', Str ''Which?''), (''is_duplicate'', Str ''2'')]]\<rparr>"

definition one_class_table :: dataframe where
  "one_class_table =
     \<lparr>columns = [''question1'', ''question2'', ''is_duplicate''],
      rows =
        [[(''question1'', Str ''How old are you?''),
          (''question2'', Str ''What is your age?''), (''is_duplicate'', Str ''1'')]]\<rparr>"

definition no_valid_table :: dataframe where
  "no_valid_table =
     \<lparr>columns = [''question1'', ''question2'', ''is_duplicate''],
      rows =
        [[(''question1'', Str ''Why?''), (''question2'', Str ''Why not?''),
          (''is_duplicate'', Str ''2'')],
         [(''question1'', Str ''Where?''), (''question2'', Str ''When?''),
          (''is_duplicate'', Null)]]\<rparr>"

definition unlabelled_table :: dataframe where
  "unlabelled_table =
     \<lparr>columns = [''id'', ''question1'', ''question2''],
      rows =
        [[(''id'', Str ''0''), (''question1'', Str ''How old are you?''),
          (''question2'', Str ''What is your age?'')]]\<rparr>"

definition capital_label_table :: dataframe where
  "capital_label_table =
     \<lparr>columns = [''question1'', ''question2'', ''Label''],
      rows =
        [[(''question1'', Str ''How old are you?''),
          (''question2'', Str ''What is your age?''), (''Label'', Str ''1'')]]\<rparr>"

definition label_column_table :: dataframe where
  "label_column_table =
     \<lparr>columns = [''question1'', ''question2'', ''label''],
      rows =
        [[(''question1'', Str ''How old are you?''),
          (''question2'', Str ''What is your age?''), (''label'', Str ''1'')]]\<rparr>"

text \<open>
  A small deterministic toolkit. Its embedding trainer rejects an empty corpus and
  otherwise returns a model with the default number of buckets, whose vocabulary is the
  set of training tokens, each with the vector (length of the token, 1), and whose
  n-gram vector of any other word is (length of the word, 2); its classifier rejects an empty, a
  mismatched or a one-class training input and otherwise predicts the first training
  label for every row; its three scores are the share of rows predicted right.
\<close>

definition toy_FastText :: "string list list \<Rightarrow> nat \<Rightarrow> error + fasttext_model" where
  "toy_FastText sentences epochs =
     (if concat sentences = [] then Inl (RuntimeError ''empty vocabulary'')
      else Inr \<lparr>vocab = (\<lambda>w. if w \<in> set (concat sentences)
                               then Some [real (length w), 1] else None),
                ngram_vector = (\<lambda>w. [real (length w), 2]),
                bucket = 2000000,
                vector_size = 2\<rparr>)"

definition toy_fit :: "real list list \<Rightarrow> double list \<Rightarrow> error + double" where
  "toy_fit X y =
     (if X = [] \<or> length X \<noteq> length y \<or> list_all (\<lambda>l. l = hd y) y
      then Inl (ValueError ''invalid training input'')
      else Inr (hd y))"

definition toy_predict :: "double \<Rightarrow> real list list \<Rightarrow> error + double list" where
  "toy_predict c X =
     (if X = [] then Inl (ValueError ''invalid test input'') else Inr (map (\<lambda>x. c) X))"

definition toy_score :: "double list \<Rightarrow> double list \<Rightarrow> error + real" where
  "toy_score ys preds =
     (if ys = [] \<or> length ys \<noteq> length preds then Inl (ValueError ''invalid score input'')
      else Inr (real (length (filter (\<lambda>(y, p). y = p) (zip ys preds))) / real (length ys)))"

definition toy_toolkit :: "double toolkit" where
  "toy_toolkit =
     \<lparr>FastText = toy_FastText,
      to_float = decimal_cast,
      fit = toy_fit,
      predict = toy_predict,
      precision_score = toy_score,
      recall_score = toy_score,
      f1_score = toy_score\<rparr>"

definition tiny_train :: dataframe where
  "tiny_train = createDataFrame [(''a b'', 1), (''c d'', 0)] [''text'', ''label'']"

definition tiny_test :: dataframe where
  "tiny_test = createDataFrame [(''A zz'', 0)] [''text'', ''label'']"

definition other_test :: dataframe where
  "other_test = createDataFrame [(''d e f'', 1), (''b'', 0)] [''text'', ''label'']"

text \<open>The model the toy trainer returns for the tokens of \<open>tiny_train\<close>.\<close>

definition tiny_model :: fasttext_model where
  "tiny_model =
     \<lparr>vocab = (\<lambda>w. if w \<in> set (concat [[''a'', ''b''], [''c'', ''d'']])
                    then Some [real (length w), 1] else None),
      ngram_vector = (\<lambda>w. [real (length w), 2]),
      bucket = 2000000,
      vector_size = 2\<rparr>"

fun stage_seconds :: "stage \<Rightarrow> real" where
  "stage_seconds Prepare = 1"
| "stage_seconds Embed = 2"
| "stage_seconds Vectorize = 3"
| "stage_seconds Fit = 4"
| "stage_seconds Predict = 5"
| "stage_seconds Score = 6"

definition default_args :: args where
  "default_args =
     \<lparr>data_file = ''hdfs://hadoop1:9000/user/spark/glue/QQP/dev.tsv'',
      test_file = ''hdfs://hadoop1:9000/user/spark/glue/QQP/dev.tsv'',
      fasttext_epochs = 3\<rparr>"

section \<open>Properties of the loader\<close>

lemma and_then_Inl [simp]: "and_then (Inl e) f = Inl e"
  by (simp add: and_then_def)

lemma and_then_Inr [simp]: "and_then (Inr x) f = f x"
  by (simp add: and_then_def)

lemma and_then_eq_Inr:
  "and_then r f = Inr y \<longleftrightarrow> (\<exists>x. r = Inr x \<and> f x = Inr y)"
  by (cases r) simp_all

lemma ci_eq_refl [simp]: "ci_eq a a"
  by (simp add: ci_eq_def)

lemma ci_eq_left: "ci_eq a b \<Longrightarrow> ci_eq a c = ci_eq b c"
  by (simp add: ci_eq_def)

lemma ci_eq_right: "ci_eq a b \<Longrightarrow> ci_eq c a = ci_eq c b"
  by (simp add: ci_eq_def)

lemma ci_eq_sym: "ci_eq a b = ci_eq b a"
  by (auto simp: ci_eq_def)

lemma lower_names [simp]:
  "py_lower ''text'' = ''text''" "py_lower ''label'' = ''label''"
  "py_lower ''question1'' = ''question1''" "py_lower ''question2'' = ''question2''"
  "py_lower ''is_duplicate'' = ''is_duplicate''" "py_lower ''id'' = ''id''"
  by (simp_all add: py_lower_def lower_char_def)

lemma has_column_Nil [simp]: "has_column [] n = False"
  by (simp add: has_column_def)

lemma has_column_Cons [simp]: "has_column (c # cs) n = (ci_eq c n \<or> has_column cs n)"
  by (simp add: has_column_def)

lemma has_column_member: "n \<in> set cs \<Longrightarrow> has_column cs n"
  by (induction cs) auto

lemma has_column_append [simp]: "has_column (cs @ ds) n = (has_column cs n \<or> has_column ds n)"
  by (simp add: has_column_def)

lemma has_column_put [simp]:
  "has_column (put_column n cs) m = (ci_eq n m \<or> has_column cs m)"
proof -
  have "has_column (map (\<lambda>c. if ci_eq c n then n else c) cs) m = has_column cs m" for cs
    by (induction cs) (auto simp: ci_eq_def)
  moreover have "has_column cs n \<Longrightarrow> ci_eq n m \<Longrightarrow> has_column cs m"
    by (induction cs) (auto simp: ci_eq_def)
  ultimately show ?thesis
    by (auto simp: put_column_def)
qed

lemma field_none: "\<not> has_column (map fst r) m \<Longrightarrow> field r m = Null"
  by (induction r) auto

lemma field_append:
  "field (r @ s) m = (if has_column (map fst r) m then field r m else field s m)"
  by (induction r) auto

lemma field_replace:
  "field (map (\<lambda>(k, x). if ci_eq k n then (n, v) else (k, x)) r) m =
     (if ci_eq n m then (if has_column (map fst r) n then v else Null) else field r m)"
  by (induction r) (auto simp: ci_eq_def)

lemma field_put [simp]:
  "field (put_field n v r) m = (if ci_eq n m then v else field r m)"
proof (cases "has_column (map fst r) n")
  case True
  then show ?thesis
    by (simp add: put_field_def field_replace)
next
  case False
  have "ci_eq n m \<Longrightarrow> \<not> has_column (map fst r) m"
    using False by (induction r) (auto simp: ci_eq_def)
  with False show ?thesis
    by (auto simp: put_field_def field_append field_none)
qed

lemma item_Nil [simp]: "item [] n = Null"
  by (simp add: item_def)

lemma item_Cons [simp]: "item ((k, v) # r) n = (if n = k then v else item r n)"
  by (simp add: item_def)

lemma to_double_idem [simp]: "to_double eng (to_double eng c) = to_double eng c"
  by (simp add: to_double_def split: cell.splits option.splits)

lemma sql_or_Some [simp]: "sql_or (Some a) (Some b) = Some (a \<or> b)"
  by (cases a; cases b) simp_all

lemma binary_filter:
  "(beval eng r (Or (EqLit (Col n) (Finite 0)) (EqLit (Col n) (Finite 1))) = Some True)
     = valid_label (to_double eng (field r n))"
  by (cases "to_double eng (field r n)") (auto simp: valid_label_def)

lemma valid_label_notnull [simp]: "(c \<noteq> Null \<and> valid_label c) = valid_label c"
  by (auto simp: valid_label_def)

lemma notnull_filter:
  "(beval eng r (IsNotNull (Col n)) = Some True) = (field r n \<noteq> Null)"
  by simp

lemma label_step_train:
  assumes "''is_duplicate'' \<in> set (columns d0)"
  shows "label_step eng False d0 =
     Inr \<lparr>columns = put_column ''label'' (columns d0),
          rows = map (\<lambda>r. put_field ''label'' (to_double eng (field r ''is_duplicate'')) r)
                   (filter (\<lambda>r. valid_label (to_double eng (field r ''is_duplicate''))) (rows d0))\<rparr>"
proof -
  have keep: "(\<lambda>r. beval eng r (Or (EqLit (Col ''label'') (Finite 0)) (EqLit (Col ''label'') (Finite 1))) = Some True)
     = (\<lambda>r. valid_label (to_double eng (field r ''label'')))"
    by (rule ext) (rule binary_filter)
  show ?thesis
    using assms has_column_member [OF assms]
    by (auto simp: label_step_def withColumn_def filter_df_def filter_map o_def keep notnull_filter
          simp del: beval.simps)
qed

lemma label_step_test:
  "label_step eng True d0 =
     Inr \<lparr>columns = put_column ''label'' (columns d0),
          rows = map (\<lambda>r. put_field ''label'' (Dbl (Finite 0)) r) (rows d0)\<rparr>"
  by (simp add: label_step_def withColumn_def)

lemma label_step_plain:
  "''is_duplicate'' \<notin> set (columns d0) \<Longrightarrow> label_step eng False d0 = Inr d0"
  by (simp add: label_step_def)

lemma sep_join2 [simp]: "join sep [a, b] = a @ sep @ b"
  by simp

lemma names_differ [simp]:
  "\<not> ci_eq ''label'' ''text''" "\<not> ci_eq ''text'' ''label''"
  "\<not> ci_eq ''label'' ''question1''" "\<not> ci_eq ''label'' ''question2''"
  "\<not> ci_eq ''text'' ''question1''" "\<not> ci_eq ''text'' ''question2''"
  "\<not> ci_eq ''label'' ''is_duplicate''"
  by (simp_all add: ci_eq_def)

lemma text_of_put_label [simp]: "text_of eng (put_field ''label'' v r) = text_of eng r"
  by (simp add: text_of_def)

text \<open>
  The rest of the body, from a frame with its label column in place: the text column,
  the projection, the filter on the text and the count.
\<close>

lemma load_rest:
  "and_then (withColumn eng ''text''
                 (Concat_ws '' [SEP] '' [Col ''question1'', Col ''question2'']) data) (\<lambda>data.
     and_then (select_df [''text'', ''label''] data) (\<lambda>data.
     and_then (filter_df eng (IsNotNull (Col ''text'')) data) (\<lambda>data.
     if count_df data = 0
     then Inl (ValueError ''dataset is empty after processing'')
     else Inr data)))
   = (if \<not> (has_column (columns data) ''question1'' \<and> has_column (columns data) ''question2''
             \<and> has_column (columns data) ''label'') then Inl AnalysisException
      else if rows data = [] then Inl (ValueError ''dataset is empty after processing'')
      else Inr \<lparr>columns = [''text'', ''label''],
                rows = map (\<lambda>r. [(''text'', text_of eng r), (''label'', field r ''label'')])
                         (rows data)\<rparr>)"
  by (auto simp: withColumn_def select_df_def filter_df_def count_df_def text_of_def o_def
      filter_map)

lemma load_try_char:
  assumes "read_csv eng p = Inr d0"
  shows "load_try eng p is_test =
    (if \<not> resolves is_test d0 then Inl AnalysisException
     else if kept_rows eng is_test d0 = [] then Inl (ValueError ''dataset is empty after processing'')
     else Inr \<lparr>columns = [''text'', ''label''],
               rows = map (\<lambda>r. [(''text'', text_of eng r), (''label'', label_of eng is_test d0 r)])
                        (kept_rows eng is_test d0)\<rparr>)"
proof (cases "labelled is_test d0")
  case True
  then have t: "is_test = False" and c: "''is_duplicate'' \<in> set (columns d0)"
    by (auto simp: labelled_def)
  show ?thesis
    using assms True c has_column_member [OF c]
    by (auto simp: t load_try_def label_step_train load_rest resolves_def kept_rows_def
        label_of_def o_def)
next
  case False
  show ?thesis
  proof (cases is_test)
    case True
    then show ?thesis
      using assms False
      by (auto simp: load_try_def label_step_test load_rest resolves_def kept_rows_def
          label_of_def o_def)
  next
    case f: False
    with False have "''is_duplicate'' \<notin> set (columns d0)"
      by (simp add: labelled_def)
    then show ?thesis
      using assms False f
      by (auto simp: load_try_def label_step_plain load_rest resolves_def kept_rows_def
          label_of_def)
  qed
qed

lemma ci_eq_names [simp]:
  "ci_eq c ''text'' = (py_lower c = ''text'')" "ci_eq c ''label'' = (py_lower c = ''label'')"
  "ci_eq c ''question1'' = (py_lower c = ''question1'')"
  "ci_eq c ''question2'' = (py_lower c = ''question2'')"
  "ci_eq c ''is_duplicate'' = (py_lower c = ''is_duplicate'')"
  by (simp_all add: ci_eq_def)

lemma lower_capital_label [simp]: "py_lower ''Label'' = ''label''"
  by code_simp

lemma load_never_raises: "\<exists>d. load_qqp_data eng p is_test = Inr d"
  by (simp add: load_qqp_data_def split: sum.splits)

lemma sample_labels: "labels sample_dataset = [Dbl (Finite 1), Dbl (Finite 0), Dbl (Finite 1)]"
  by (simp add: labels_def sample_dataset_def sample_data_def createDataFrame_def)

lemma sample_texts: "list_all nonempty_text (texts sample_dataset)"
  by (simp add: texts_def sample_dataset_def sample_data_def createDataFrame_def nonempty_text_def)

lemma sample_count: "count_df sample_dataset = 3"
  by (simp add: count_df_def sample_dataset_def sample_data_def createDataFrame_def)

text \<open>
  Claim C1. A training-set load (\<open>is_test = False\<close>) whose read raises does not raise:
  it returns the built-in sample dataset, which has exactly three records, with the
  labels 1.0, 0.0, 1.0 in that order and non-empty texts.
\<close>

theorem load_unreadable_source_falls_back:
  assumes "read_csv eng file_path = Inl e"
  shows "load_qqp_data eng file_path False = Inr sample_dataset
         \<and> count_df sample_dataset = 3
         \<and> labels sample_dataset = [Dbl (Finite 1), Dbl (Finite 0), Dbl (Finite 1)]
         \<and> list_all nonempty_text (texts sample_dataset)"
  using assms
  by (simp add: load_qqp_data_def load_try_def sample_labels sample_texts sample_count)

theorem load_unreadable_source_falls_back_witness:
  "read_csv unreachable_engine ''hdfs://hadoop1:9000/missing.tsv'' = Inl SourceUnavailable
   \<and> load_qqp_data unreachable_engine ''hdfs://hadoop1:9000/missing.tsv'' False = Inr sample_dataset
   \<and> count_df sample_dataset = 3
   \<and> labels sample_dataset = [Dbl (Finite 1), Dbl (Finite 0), Dbl (Finite 1)]
   \<and> list_all nonempty_text (texts sample_dataset)"
proof -
  have h: "read_csv unreachable_engine ''hdfs://hadoop1:9000/missing.tsv'' = Inl SourceUnavailable"
    by (simp add: unreachable_engine_def)
  show ?thesis
    using h load_unreadable_source_falls_back [OF h] by simp
qed

lemma decimal_cast_0 [simp]: "decimal_cast ''0'' = Some (Finite 0)"
  by (simp add: decimal_cast_def digit_value_def)

lemma decimal_cast_1 [simp]: "decimal_cast ''1'' = Some (Finite 1)"
  by (simp add: decimal_cast_def digit_value_def)

lemma decimal_cast_2 [simp]: "decimal_cast ''2'' = Some (Finite 2)"
  by (simp add: decimal_cast_def digit_value_def)

lemma decimal_cast_maybe [simp]: "decimal_cast ''maybe'' = None"
  by (simp add: decimal_cast_def digit_value_def)

lemma table_engine_simps [simp]:
  "read_csv (table_engine t) p = Inr t"
  "cast_double (table_engine t) = decimal_cast"
  by (simp_all add: table_engine_def)

text \<open>
  Claim C2 says that a load whose source is read but keeps no record raises an error
  to the caller. The \<open>raise\<close> sits inside the \<open>try\<close>, so the handler of the same
  function catches it: on a table where no label is 0 or 1 the body fails with the
  \<open>ValueError\<close>, and the function returns the sample dataset.
\<close>

theorem load_empty_counterexample:
  "read_csv (table_engine no_valid_table) ''train.tsv'' = Inr no_valid_table
   \<and> kept_rows (table_engine no_valid_table) False no_valid_table = []
   \<and> load_try (table_engine no_valid_table) ''train.tsv'' False
       = Inl (ValueError ''dataset is empty after processing'')
   \<and> load_qqp_data (table_engine no_valid_table) ''train.tsv'' False = Inr sample_dataset"
proof -
  have k: "kept_rows (table_engine no_valid_table) False no_valid_table = []"
    by (simp add: kept_rows_def labelled_def no_valid_table_def to_double_def valid_label_def)
  have r: "resolves False no_valid_table"
    by (simp add: resolves_def no_valid_table_def)
  have t: "load_try (table_engine no_valid_table) ''train.tsv'' False
       = Inl (ValueError ''dataset is empty after processing'')"
    using load_try_char [of "table_engine no_valid_table" "''train.tsv''" no_valid_table False] k r
    by simp
  show ?thesis
    using k t by (simp add: load_qqp_data_def)
qed

text \<open>
  Claim C2, as the code has it: when the source is read, its columns resolve and no
  record remains after filtering, the body raises the \<open>ValueError\<close> and the load returns
  the three-record sample dataset instead of raising.
\<close>

theorem load_empty_falls_back:
  assumes "read_csv eng file_path = Inr d0" and "resolves is_test d0"
    and "kept_rows eng is_test d0 = []"
  shows "load_try eng file_path is_test = Inl (ValueError ''dataset is empty after processing'')
         \<and> load_qqp_data eng file_path is_test = Inr sample_dataset"
  using assms load_try_char [OF assms(1), of is_test]
  by (simp add: load_qqp_data_def)

theorem load_empty_falls_back_witness:
  "read_csv (table_engine no_valid_table) ''train.tsv'' = Inr no_valid_table
   \<and> resolves False no_valid_table
   \<and> kept_rows (table_engine no_valid_table) False no_valid_table = []
   \<and> load_try (table_engine no_valid_table) ''train.tsv'' False
       = Inl (ValueError ''dataset is empty after processing'')
   \<and> load_qqp_data (table_engine no_valid_table) ''train.tsv'' False = Inr sample_dataset"
proof -
  have h: "read_csv (table_engine no_valid_table) ''train.tsv'' = Inr no_valid_table"
    by simp
  have k: "kept_rows (table_engine no_valid_table) False no_valid_table = []"
    by (simp add: kept_rows_def labelled_def no_valid_table_def to_double_def valid_label_def)
  have r: "resolves False no_valid_table"
    by (simp add: resolves_def no_valid_table_def)
  show ?thesis
    using h k r load_empty_falls_back [OF h r k] by simp
qed

lemma unreachable_engine_simps [simp]:
  "read_csv unreachable_engine p = Inl SourceUnavailable"
  by (simp add: unreachable_engine_def)

lemma load_qqp_table:
  "load_qqp_data (table_engine qqp_table) p False =
     Inr \<lparr>columns = [''text'', ''label''],
          rows = [[(''text'', Str ''How old are you? [SEP] What is your age?''),
                   (''label'', Dbl (Finite 1))],
                  [(''text'', Str ''Is it raining? [SEP] Who wrote Hamlet?''),
                   (''label'', Dbl (Finite 0))]]\<rparr>"
proof -
  have r: "resolves False qqp_table"
    by (simp add: resolves_def qqp_table_def)
  have k: "kept_rows (table_engine qqp_table) False qqp_table = take 2 (rows qqp_table)"
    by (simp add: kept_rows_def labelled_def qqp_table_def to_double_def valid_label_def)
  have t: "read_csv (table_engine qqp_table) p = Inr qqp_table"
    by simp
  show ?thesis
    unfolding load_qqp_data_def load_try_char [OF t]
    by (simp add: r k)
      (simp add: qqp_table_def text_of_def label_of_def labelled_def to_double_def)
qed

text \<open>
  Claim C5. For a training-set load of a source with an \<open>is_duplicate\<close> column, every
  label of the returned dataset is exactly 0.0 or exactly 1.0; unless the result is the
  sample dataset, the labels are the casts of the rows whose cast is 0.0 or 1.0, in
  order: the rows whose \<open>is_duplicate\<close> is absent, fails to cast or casts to another
  value are dropped.
\<close>

theorem training_labels_binary:
  assumes "read_csv eng file_path = Inr d0" and "''is_duplicate'' \<in> set (columns d0)"
    and "load_qqp_data eng file_path False = Inr d"
  shows "(\<forall>l\<in>set (labels d). l = Dbl (Finite 0) \<or> l = Dbl (Finite 1))
         \<and> (d = sample_dataset
            \<or> labels d = map (\<lambda>r. to_double eng (field r ''is_duplicate''))
                          (filter (\<lambda>r. valid_label (to_double eng (field r ''is_duplicate'')))
                             (rows d0)))"
proof (cases "load_try eng file_path False")
  case (Inl e)
  with assms(3) have "d = sample_dataset"
    by (simp add: load_qqp_data_def)
  then show ?thesis
    by (simp add: sample_labels)
next
  case (Inr d')
  with assms(3) have d: "load_try eng file_path False = Inr d"
    by (simp add: load_qqp_data_def)
  have l: "labelled False d0"
    using assms(2) by (simp add: labelled_def)
  have "labels d = map (\<lambda>r. to_double eng (field r ''is_duplicate''))
                          (filter (\<lambda>r. valid_label (to_double eng (field r ''is_duplicate'')))
                             (rows d0))"
    using d l unfolding load_try_char [OF assms(1)]
    by (auto simp: labels_def o_def kept_rows_def label_of_def split: if_splits)
  then show ?thesis
    by (auto simp: valid_label_def)
qed

theorem training_labels_binary_witness:
  "read_csv (table_engine qqp_table) ''train.tsv'' = Inr qqp_table
   \<and> ''is_duplicate'' \<in> set (columns qqp_table)
   \<and> labels (projr (load_qqp_data (table_engine qqp_table) ''train.tsv'' False))
       = [Dbl (Finite 1), Dbl (Finite 0)]
   \<and> list_all valid_label
         (labels (projr (load_qqp_data (table_engine qqp_table) ''train.tsv'' False)))"
proof -
  have h: "read_csv (table_engine qqp_table) ''train.tsv'' = Inr qqp_table"
    by simp
  have c: "''is_duplicate'' \<in> set (columns qqp_table)"
    by (simp add: qqp_table_def)
  show ?thesis
    using h c training_labels_binary [OF h c load_qqp_table [of "''train.tsv''"]]
    by (simp add: load_qqp_table labels_def valid_label_def)
qed

text \<open>
  Claim C8 says that every record of an evaluation-set load has the label 0.0, also
  when the load falls back. The sample dataset is the same for both kinds of load: an
  evaluation-set load of an unreadable source returns records labelled 1.0.
\<close>

theorem evaluation_fallback_counterexample:
  "load_qqp_data unreachable_engine ''test.tsv'' True = Inr sample_dataset
   \<and> labels sample_dataset = [Dbl (Finite 1), Dbl (Finite 0), Dbl (Finite 1)]
   \<and> Dbl (Finite 1) \<noteq> Dbl (Finite 0)"
  by (simp add: load_qqp_data_def load_try_def sample_labels)

text \<open>
  Claim C8, as the code has it: an evaluation-set load (\<open>is_test = True\<close>) either
  succeeds in its body, and then every record has the placeholder label 0.0, or it
  falls back to the sample dataset (whose labels are 1.0, 0.0, 1.0).
\<close>

theorem evaluation_labels_placeholder:
  assumes "load_qqp_data eng file_path True = Inr d"
  shows "(load_try eng file_path True = Inr d \<and> (\<forall>l\<in>set (labels d). l = Dbl (Finite 0)))
         \<or> ((\<exists>e. load_try eng file_path True = Inl e) \<and> d = sample_dataset)"
proof (cases "load_try eng file_path True")
  case (Inl e)
  with assms show ?thesis
    by (simp add: load_qqp_data_def)
next
  case (Inr d')
  with assms have d: "load_try eng file_path True = Inr d"
    by (simp add: load_qqp_data_def)
  then obtain d0 where r: "read_csv eng file_path = Inr d0"
    by (cases "read_csv eng file_path") (simp_all add: load_try_def)
  have "\<forall>l\<in>set (labels d). l = Dbl (Finite 0)"
    using d unfolding load_try_char [OF r]
    by (auto simp: labels_def o_def label_of_def labelled_def split: if_splits)
  with d show ?thesis
    by simp
qed

lemma load_unlabelled_test:
  "load_try (table_engine unlabelled_table) p True =
     Inr \<lparr>columns = [''text'', ''label''],
          rows = [[(''text'', Str ''How old are you? [SEP] What is your age?''),
                   (''label'', Dbl (Finite 0))]]\<rparr>"
proof -
  have t: "read_csv (table_engine unlabelled_table) p = Inr unlabelled_table"
    by simp
  show ?thesis
    unfolding load_try_char [OF t]
    by (simp add: resolves_def kept_rows_def labelled_def unlabelled_table_def text_of_def
        label_of_def)
qed

theorem evaluation_labels_placeholder_witness:
  "load_qqp_data (table_engine unlabelled_table) ''test.tsv'' True =
     Inr \<lparr>columns = [''text'', ''label''],
          rows = [[(''text'', Str ''How old are you? [SEP] What is your age?''),
                   (''label'', Dbl (Finite 0))]]\<rparr>
   \<and> labels (projr (load_qqp_data (table_engine unlabelled_table) ''test.tsv'' True))
       = [Dbl (Finite 0)]"
proof -
  have h: "load_qqp_data (table_engine unlabelled_table) ''test.tsv'' True =
     Inr \<lparr>columns = [''text'', ''label''],
          rows = [[(''text'', Str ''How old are you? [SEP] What is your age?''),
                   (''label'', Dbl (Finite 0))]]\<rparr>"
    by (simp add: load_qqp_data_def load_unlabelled_test)
  show ?thesis
    using h evaluation_labels_placeholder [OF h]
    by (simp add: labels_def)
qed

text \<open>
  Claim C9. A source row with two question strings and an \<open>is_duplicate\<close> of \<open>"0"\<close> or
  \<open>"1"\<close> (which the engine casts to 0.0 and 1.0) gives a record of the loaded dataset
  whose label is that number and whose text is \<open>question1\<close>, the separator
  \<open>" [SEP] "\<close>, then \<open>question2\<close>.
\<close>

theorem valid_pair_becomes_record:
  assumes "read_csv eng file_path = Inr d0"
    and "{''question1'', ''question2'', ''is_duplicate''} \<subseteq> set (columns d0)"
    and "r \<in> set (rows d0)"
    and "field r ''question1'' = Str q1" and "field r ''question2'' = Str q2"
    and "field r ''is_duplicate'' = Str s" and "s = ''0'' \<or> s = ''1''"
    and "cast_double eng ''0'' = Some (Finite 0)" and "cast_double eng ''1'' = Some (Finite 1)"
  shows "\<exists>d. load_qqp_data eng file_path False = Inr d
           \<and> [(''text'', Str (q1 @ '' [SEP] '' @ q2)),
               (''label'', Dbl (Finite (if s = ''0'' then 0 else 1)))] \<in> set (rows d)"
proof -
  have l: "labelled False d0"
    using assms(2) by (simp add: labelled_def)
  have res: "resolves False d0"
    using assms(2) by (simp add: resolves_def has_column_member)
  have lab: "to_double eng (field r ''is_duplicate'') = Dbl (Finite (if s = ''0'' then 0 else 1))"
    using assms(6-9) by (auto simp: to_double_def)
  then have "valid_label (to_double eng (field r ''is_duplicate''))"
    by (simp add: valid_label_def)
  with assms(3) l have k: "r \<in> set (kept_rows eng False d0)"
    by (simp add: kept_rows_def)
  then have ne: "kept_rows eng False d0 \<noteq> []"
    by auto
  have tx: "text_of eng r = Str (q1 @ '' [SEP] '' @ q2)"
    using assms(4,5) by (simp add: text_of_def)
  have lo: "label_of eng False d0 r = Dbl (Finite (if s = ''0'' then 0 else 1))"
    using l lab by (simp add: label_of_def)
  let ?d = "\<lparr>columns = [''text'', ''label''],
               rows = map (\<lambda>r. [(''text'', text_of eng r), (''label'', label_of eng False d0 r)])
                        (kept_rows eng False d0)\<rparr>"
  have "load_qqp_data eng file_path False = Inr ?d"
    unfolding load_qqp_data_def load_try_char [OF assms(1)] using res ne by simp
  moreover have "[(''text'', Str (q1 @ '' [SEP] '' @ q2)),
               (''label'', Dbl (Finite (if s = ''0'' then 0 else 1)))] \<in> set (rows ?d)"
    using k tx lo by (force simp: image_iff)
  ultimately show ?thesis
    by blast
qed

theorem valid_pair_becomes_record_witness:
  "read_csv (table_engine qqp_table) ''train.tsv'' = Inr qqp_table
   \<and> {''question1'', ''question2'', ''is_duplicate''} \<subseteq> set (columns qqp_table)
   \<and> rows qqp_table ! 1 \<in> set (rows qqp_table)
   \<and> field (rows qqp_table ! 1) ''question1'' = Str ''Is it raining?''
   \<and> field (rows qqp_table ! 1) ''question2'' = Str ''Who wrote Hamlet?''
   \<and> field (rows qqp_table ! 1) ''is_duplicate'' = Str ''0''
   \<and> cast_double (table_engine qqp_table) ''0'' = Some (Finite 0)
   \<and> cast_double (table_engine qqp_table) ''1'' = Some (Finite 1)
   \<and> [(''text'', Str ''Is it raining? [SEP] Who wrote Hamlet?''), (''label'', Dbl (Finite 0))]
       \<in> set (rows (projr (load_qqp_data (table_engine qqp_table) ''train.tsv'' False)))"
proof -
  have h1: "read_csv (table_engine qqp_table) ''train.tsv'' = Inr qqp_table"
    by simp
  have h2: "{''question1'', ''question2'', ''is_duplicate''} \<subseteq> set (columns qqp_table)"
    by (simp add: qqp_table_def)
  have h3: "rows qqp_table ! 1 \<in> set (rows qqp_table)"
    by (simp add: qqp_table_def)
  have h4: "field (rows qqp_table ! 1) ''question1'' = Str ''Is it raining?''"
    by (simp add: qqp_table_def)
  have h5: "field (rows qqp_table ! 1) ''question2'' = Str ''Who wrote Hamlet?''"
    by (simp add: qqp_table_def)
  have h6: "field (rows qqp_table ! 1) ''is_duplicate'' = Str ''0''"
    by (simp add: qqp_table_def)
  have h7: "''0'' = ''0'' \<or> ''0'' = ''1''"
    by simp
  have h8: "cast_double (table_engine qqp_table) ''0'' = Some (Finite 0)"
    by simp
  have h9: "cast_double (table_engine qqp_table) ''1'' = Some (Finite 1)"
    by simp
  show ?thesis
    using h2 h3 h4 h5 h6 valid_pair_becomes_record [OF h1 h2 h3 h4 h5 h6 h7 h8 h9]
    by auto
qed

lemma load_capital_label:
  "load_qqp_data (table_engine capital_label_table) p False =
       Inr \<lparr>columns = [''text'', ''label''],
            rows = [[(''text'', Str ''How old are you? [SEP] What is your age?''),
                     (''label'', Str ''1'')]]\<rparr>"
proof -
  have t: "read_csv (table_engine capital_label_table) p = Inr capital_label_table"
    by simp
  show ?thesis
    unfolding load_qqp_data_def load_try_char [OF t]
    by (simp add: resolves_def kept_rows_def labelled_def capital_label_table_def text_of_def
        label_of_def)
qed

text \<open>
  Claim C10 says that a training-set load of a source without an \<open>is_duplicate\<close>
  column always falls back, because no label column exists. A source that brings a
  column named \<open>label\<close> of its own, in any letter case, is selected as it is: the load
  returns the real rows, with that column's strings as labels.
\<close>

theorem source_label_column_counterexample:
  "read_csv (table_engine label_column_table) ''train.tsv'' = Inr label_column_table
   \<and> ''is_duplicate'' \<notin> set (columns label_column_table)
   \<and> load_qqp_data (table_engine label_column_table) ''train.tsv'' False =
       Inr \<lparr>columns = [''text'', ''label''],
            rows = [[(''text'', Str ''How old are you? [SEP] What is your age?''),
                     (''label'', Str ''1'')]]\<rparr>
   \<and> load_qqp_data (table_engine label_column_table) ''train.tsv'' False \<noteq> Inr sample_dataset
   \<and> ''is_duplicate'' \<notin> set (columns capital_label_table)
   \<and> ''label'' \<notin> set (columns capital_label_table)
   \<and> load_qqp_data (table_engine capital_label_table) ''train.tsv'' False =
       Inr \<lparr>columns = [''text'', ''label''],
            rows = [[(''text'', Str ''How old are you? [SEP] What is your age?''),
                     (''label'', Str ''1'')]]\<rparr>"
proof -
  have t: "read_csv (table_engine label_column_table) ''train.tsv'' = Inr label_column_table"
    by simp
  have l: "load_qqp_data (table_engine label_column_table) ''train.tsv'' False =
       Inr \<lparr>columns = [''text'', ''label''],
            rows = [[(''text'', Str ''How old are you? [SEP] What is your age?''),
                     (''label'', Str ''1'')]]\<rparr>"
    unfolding load_qqp_data_def load_try_char [OF t]
    by (simp add: resolves_def kept_rows_def labelled_def label_column_table_def text_of_def
        label_of_def)
  have "count_df \<lparr>columns = [''text'', ''label''],
            rows = [[(''text'', Str ''How old are you? [SEP] What is your age?''),
                     (''label'', Str ''1'')]]\<rparr> \<noteq> count_df sample_dataset"
    by (simp add: sample_count) (simp add: count_df_def)
  then have "\<lparr>columns = [''text'', ''label''],
            rows = [[(''text'', Str ''How old are you? [SEP] What is your age?''),
                     (''label'', Str ''1'')]]\<rparr> \<noteq> sample_dataset"
    by metis
  with l load_capital_label [of "''train.tsv''"] show ?thesis
    by (simp add: label_column_table_def capital_label_table_def)
qed

text \<open>
  Claim C10, amended: a training-set load of a source that has no \<open>is_duplicate\<close>
  column and no column whose name is \<open>label\<close> in any letter case fails to resolve its
  columns and returns the three-record sample dataset.
\<close>

theorem unlabelled_training_source_falls_back:
  assumes "read_csv eng file_path = Inr d0"
    and "''is_duplicate'' \<notin> set (columns d0)" and "\<not> has_column (columns d0) ''label''"
  shows "load_try eng file_path False = Inl AnalysisException
         \<and> load_qqp_data eng file_path False = Inr sample_dataset"
  using assms(2,3) unfolding load_qqp_data_def load_try_char [OF assms(1)]
  by (simp add: resolves_def)

theorem unlabelled_training_source_falls_back_witness:
  "read_csv (table_engine unlabelled_table) ''test.tsv'' = Inr unlabelled_table
   \<and> ''is_duplicate'' \<notin> set (columns unlabelled_table)
   \<and> \<not> has_column (columns unlabelled_table) ''label''
   \<and> load_try (table_engine unlabelled_table) ''test.tsv'' False = Inl AnalysisException
   \<and> load_qqp_data (table_engine unlabelled_table) ''test.tsv'' False = Inr sample_dataset"
proof -
  have h1: "read_csv (table_engine unlabelled_table) ''test.tsv'' = Inr unlabelled_table"
    by simp
  have h2: "''is_duplicate'' \<notin> set (columns unlabelled_table)"
    by (simp add: unlabelled_table_def)
  have h3: "\<not> has_column (columns unlabelled_table) ''label''"
    by (simp add: unlabelled_table_def)
  show ?thesis
    using h1 h2 h3 unlabelled_training_source_falls_back [OF h1 h2 h3] by simp
qed

section \<open>Properties of the vectoriser\<close>

lemma map_e_Inr:
  assumes "\<And>x. x \<in> set xs \<Longrightarrow> f x = Inr (g x)"
  shows "map_e f xs = Inr (map g xs)"
  using assms by (induction xs) simp_all

lemma wv_getitem_contained:
  "wv_contains model w \<Longrightarrow> wv_getitem model w = Inr (word_vector model w)"
  by (auto simp: wv_contains_def wv_getitem_def word_vector_def split: option.splits if_splits)

text \<open>
  \<open>text_to_vector\<close> never raises: the membership test guards every lookup. Its value is
  the mean of the vectors of the tokens that pass the test, or the zero vector when
  none does.
\<close>

lemma text_to_vector_value:
  "text_to_vector text model =
     Inr (let ws = filter (wv_contains model) (preprocess_text text)
          in if ws = [] then replicate (vector_size model) 0
             else np_mean_axis0 (map (word_vector model) ws))"
proof -
  have "map_e (wv_getitem model) (filter (wv_contains model) (preprocess_text text))
          = Inr (map (word_vector model) (filter (wv_contains model) (preprocess_text text)))"
    by (rule map_e_Inr) (simp add: wv_getitem_contained)
  then show ?thesis
    by (simp add: text_to_vector_def Let_def)
qed

text \<open>
  With n-gram buckets, as in the model the program trains, the test passes for every
  token: nothing is dropped, and only a text without tokens gives the zero vector.
\<close>

lemma text_to_vector_with_buckets:
  assumes "0 < bucket model"
  shows "text_to_vector text model =
     Inr (if preprocess_text text = [] then replicate (vector_size model) 0
          else np_mean_axis0 (map (word_vector model) (preprocess_text text)))"
proof -
  have "filter (wv_contains model) ws = ws" for ws
    using assms by (simp add: wv_contains_def)
  then show ?thesis
    by (simp add: text_to_vector_value)
qed

lemma vsum_props:
  assumes "vs \<noteq> []" and "\<forall>v\<in>set vs. length v = n"
  shows "length (vsum vs) = n \<and> (\<forall>i<n. vsum vs ! i = (\<Sum>v\<leftarrow>vs. v ! i))"
  using assms
proof (induction vs rule: vsum.induct)
  case 1
  then show ?case by simp
next
  case (2 v)
  then show ?case by simp
next
  case (3 v w vs)
  then show ?case by simp
qed

lemma np_mean_axis0_nth:
  assumes "vs \<noteq> []" and "\<forall>v\<in>set vs. length v = n"
  shows "np_mean_axis0 vs = map (\<lambda>i. (\<Sum>v\<leftarrow>vs. v ! i) / real (length vs)) [0..<n]"
  using vsum_props [OF assms]
  by (auto simp: np_mean_axis0_def intro!: nth_equalityI)

text \<open>
  Without buckets the test is the vocabulary lookup, and the function is the vectoriser
  of the specification.
\<close>

lemma text_to_vector_without_buckets:
  assumes "bucket model = 0" and "wf_model model"
  shows "text_to_vector text model = Inr (vectorize_spec model (preprocess_text text))"
proof -
  let ?known = "in_vocab model (preprocess_text text)"
  let ?vs = "map (word_vector model) ?known"
  have f: "filter (wv_contains model) ws = in_vocab model ws" for ws
    using assms(1) by (auto simp: wv_contains_def in_vocab_def intro!: filter_cong)
  have w: "map (word_vector model) ?known = map (\<lambda>w. the (vocab model w)) ?known"
    by (auto simp: in_vocab_def word_vector_def)
  show ?thesis
  proof (cases "?known = []")
    case True
    then show ?thesis
      by (simp add: text_to_vector_value f vectorize_spec_def)
  next
    case False
    then have ne: "?vs \<noteq> []"
      by simp
    have len: "\<forall>v\<in>set ?vs. length v = vector_size model"
      using assms(2) by (auto simp: wf_model_def in_vocab_def word_vector_def)
    have "np_mean_axis0 ?vs =
            map (\<lambda>i. (\<Sum>v\<leftarrow>?vs. v ! i) / real (length ?vs)) [0..<vector_size model]"
      by (rule np_mean_axis0_nth [OF ne len])
    with False show ?thesis
      by (simp add: text_to_vector_value f vectorize_spec_def w o_def Let_def)
  qed
qed

lemma upt_two: "[0..<2] = [0, Suc 0]"
  by (simp add: numeral_2_eq_2)

lemma tokens_unknown: "py_split (py_lower ''Zzz yyy'') = [''zzz'', ''yyy'']"
  by code_simp

lemma tokens_mixed: "py_split (py_lower ''a  Zzz'') = [''a'', ''zzz'']"
  by code_simp

text \<open>
  Claim C7 at a model with the default buckets, whose vocabulary is a, b, c, d: a text
  of two unknown tokens is not mapped to the zero vector but to the mean of their
  n-gram vectors, and an unknown token next to a known one is averaged in; the
  vectoriser of the specification gives the zero vector and the known token's vector.
\<close>

theorem text_to_vector_unknown_tokens:
  "bucket tiny_model = 2000000
   \<and> vocab tiny_model ''zzz'' = None \<and> vocab tiny_model ''yyy'' = None
   \<and> vocab tiny_model ''a'' = Some [1, 1]
   \<and> preprocess_text (Str ''Zzz yyy'') = [''zzz'', ''yyy'']
   \<and> text_to_vector (Str ''Zzz yyy'') tiny_model = Inr [3, 2]
   \<and> vectorize_spec tiny_model (preprocess_text (Str ''Zzz yyy'')) = [0, 0]
   \<and> preprocess_text (Str ''a  Zzz'') = [''a'', ''zzz'']
   \<and> text_to_vector (Str ''a  Zzz'') tiny_model = Inr [2, 3 / 2]
   \<and> vectorize_spec tiny_model (preprocess_text (Str ''a  Zzz'')) = [1, 1]"
proof -
  have b: "0 < bucket tiny_model"
    by (simp add: tiny_model_def)
  have v: "vocab tiny_model ''zzz'' = None" "vocab tiny_model ''yyy'' = None"
    "vocab tiny_model ''a'' = Some [1, 1]"
    by (simp_all add: tiny_model_def)
  have w: "word_vector tiny_model ''zzz'' = [3, 2]" "word_vector tiny_model ''yyy'' = [3, 2]"
    "word_vector tiny_model ''a'' = [1, 1]"
    by (simp_all add: word_vector_def tiny_model_def)
  have t1: "text_to_vector (Str ''Zzz yyy'') tiny_model = Inr [3, 2]"
    by (simp add: text_to_vector_with_buckets [OF b] tokens_unknown w np_mean_axis0_def)
  have t2: "text_to_vector (Str ''a  Zzz'') tiny_model = Inr [2, 3 / 2]"
    by (simp add: text_to_vector_with_buckets [OF b] tokens_mixed w np_mean_axis0_def)
  have s1: "vectorize_spec tiny_model [''zzz'', ''yyy''] = [0, 0]"
    by (simp add: vectorize_spec_def in_vocab_def v) (simp add: tiny_model_def numeral_2_eq_2)
  have s2: "vectorize_spec tiny_model [''a'', ''zzz''] = [1, 1]"
    by (simp add: vectorize_spec_def in_vocab_def v) (simp add: tiny_model_def upt_two)
  show ?thesis
    using t1 t2 by (simp add: tokens_unknown tokens_mixed s1 s2 v) (simp add: tiny_model_def)
qed

section \<open>Properties of the training run\<close>

lemma column_texts: "''text'' \<in> set (columns df) \<Longrightarrow> column df ''text'' = Inr (texts df)"
  by (simp add: column_def texts_def)

lemma column_eq_Inr:
  "column df n = Inr cs \<longleftrightarrow> n \<in> set (columns df) \<and> cs = map (\<lambda>r. item r n) (rows df)"
  by (auto simp: column_def)

text \<open>
  Claim C6. The embedding model is trained on the tokenised training texts only: two
  runs on the same training set with any two evaluation sets, when both reach the
  embedding step, train the same model (the same vocabulary and vectors), namely the one
  the trainer returns for the training sentences.
\<close>

theorem embedding_ignores_evaluation_set:
  assumes "fasttext_stage tk dur now train_data test1 epochs = Inr (tr1, te1, m1, t1)"
    and "fasttext_stage tk dur' now' train_data test2 epochs = Inr (tr2, te2, m2, t2)"
  shows "m1 = m2 \<and> tr1 = tr2
         \<and> label_astype_float tk (dropna (toPandas train_data)) = Inr tr1
         \<and> FastText tk (map preprocess_text (texts tr1)) epochs = Inr m1"
  using assms
  by (auto simp: fasttext_stage_def prepare_def Let_def and_then_eq_Inr column_eq_Inr texts_def)

lemma vectors_total:
  "map_e (\<lambda>text. text_to_vector text model) ts
     = Inr (map (\<lambda>text. projr (text_to_vector text model)) ts)"
  by (rule map_e_Inr) (simp add: text_to_vector_value)

lemma frame2_simps:
  "createDataFrame data [''text'', ''label''] =
     \<lparr>columns = [''text'', ''label''],
      rows = map (\<lambda>(t, l). [(''text'', Str t), (''label'', Dbl (Finite l))]) data\<rparr>"
  by (simp add: createDataFrame_def)

lemma prepare_created:
  "prepare tk (createDataFrame xs [''text'', ''label'']) (createDataFrame ys [''text'', ''label''])
     = Inr (createDataFrame xs [''text'', ''label''], createDataFrame ys [''text'', ''label''])"
proof -
  have a: "label_astype_float tk (dropna (toPandas (createDataFrame zs [''text'', ''label''])))
             = Inr (createDataFrame zs [''text'', ''label''])" for zs
  proof (induction zs)
    case Nil
    show ?case
      by (simp add: frame2_simps label_astype_float_def dropna_def toPandas_def column_def)
  next
    case (Cons z zs)
    obtain t l where z: "z = (t, l)"
      by (cases z)
    from Cons show ?case
      by (auto simp: z frame2_simps label_astype_float_def dropna_def toPandas_def column_def
          is_na_def astype_float_def and_then_eq_Inr)
  qed
  show ?thesis
    by (simp add: prepare_def a)
qed

lemma toy_toolkit_simps [simp]:
  "FastText toy_toolkit = toy_FastText" "to_float toy_toolkit = decimal_cast"
  "fit toy_toolkit = toy_fit" "predict toy_toolkit = toy_predict"
  "precision_score toy_toolkit = toy_score" "recall_score toy_toolkit = toy_score"
  "f1_score toy_toolkit = toy_score"
  by (simp_all add: toy_toolkit_def)

lemma tiny_tokens: "map preprocess_text (texts tiny_train) = [[''a'', ''b''], [''c'', ''d'']]"
proof -
  have "py_split (py_lower ''a b'') = [''a'', ''b'']" "py_split (py_lower ''c d'') = [''c'', ''d'']"
    by code_simp+
  then show ?thesis
    by (simp add: tiny_train_def frame2_simps texts_def)
qed

lemma stage_tiny:
  "fasttext_stage toy_toolkit dur now tiny_train (createDataFrame ys [''text'', ''label'']) ep
     = Inr (tiny_train, createDataFrame ys [''text'', ''label''], tiny_model,
            now + dur Prepare + dur Embed)"
proof -
  have p: "prepare toy_toolkit tiny_train (createDataFrame ys [''text'', ''label''])
             = Inr (tiny_train, createDataFrame ys [''text'', ''label''])"
    unfolding tiny_train_def by (rule prepare_created)
  have c: "column tiny_train ''text'' = Inr (texts tiny_train)"
    by (rule column_texts) (simp add: tiny_train_def frame2_simps)
  show ?thesis
    by (simp only: fasttext_stage_def p c and_then_Inr prod.case Let_def tiny_tokens
          toy_toolkit_simps)
      (simp add: toy_FastText_def tiny_model_def)
qed

theorem embedding_ignores_evaluation_set_witness:
  "fasttext_stage toy_toolkit stage_seconds 0 tiny_train tiny_test 3
     = Inr (tiny_train, tiny_test, tiny_model, 3)
   \<and> fasttext_stage toy_toolkit stage_seconds 0 tiny_train other_test 3
     = Inr (tiny_train, other_test, tiny_model, 3)
   \<and> toy_FastText (map preprocess_text (texts tiny_train)) 3 = Inr tiny_model
   \<and> vocab tiny_model ''a'' = Some [1, 1]
   \<and> vocab tiny_model ''zz'' = None
   \<and> vocab tiny_model ''e'' = None"
proof -
  have s1: "fasttext_stage toy_toolkit stage_seconds 0 tiny_train tiny_test 3
     = Inr (tiny_train, tiny_test, tiny_model, 3)"
    using stage_tiny [of stage_seconds 0 "[(''A zz'', 0)]" 3]
    by (simp add: tiny_test_def)
  have s2: "fasttext_stage toy_toolkit stage_seconds 0 tiny_train other_test 3
     = Inr (tiny_train, other_test, tiny_model, 3)"
    using stage_tiny [of stage_seconds 0 "[(''d e f'', 1), (''b'', 0)]" 3]
    by (simp add: other_test_def)
  have w: "vocab tiny_model ''a'' = Some [1, 1] \<and> vocab tiny_model ''zz'' = None
           \<and> vocab tiny_model ''e'' = None"
    by (simp add: tiny_model_def)
  show ?thesis
    using s1 s2 w embedding_ignores_evaluation_set [OF s1 s2]
    by simp
qed

lemma train_tiny:
  "train_fasttext toy_toolkit stage_seconds now tiny_train tiny_test 3
     = Inr ((Finite 0, 0, 0, 0), 21)"
  apply (simp only: train_fasttext_def tiny_test_def stage_tiny Let_def and_then_Inr prod.case)
  apply (simp only: tiny_train_def frame2_simps column_def vectors_total)
  apply (simp add: doubles_def)
  apply (simp add: toy_fit_def)
  apply (simp add: toy_predict_def)
  apply (simp add: accuracy_def np_eq_def)
  apply (simp add: toy_score_def)
  done

text \<open>
  Claim C4 says that the reported training time ends when the classifier is fitted and
  leaves out prediction and scoring. The clock is read again only after the scores are
  computed: in a run whose stages up to the fit take 10 seconds, and whose prediction
  and scoring take 11, the reported time is 21.
\<close>

theorem training_time_counterexample:
  "train_fasttext toy_toolkit stage_seconds 100 tiny_train tiny_test 3
     = Inr ((Finite 0, 0, 0, 0), 21)
   \<and> stage_seconds Prepare + stage_seconds Embed + stage_seconds Vectorize + stage_seconds Fit
       = 10
   \<and> stage_seconds Predict + stage_seconds Score = 11"
proof -
  have "stage_seconds Prepare + stage_seconds Embed + stage_seconds Vectorize + stage_seconds Fit
       = 10"
    by simp
  moreover have "stage_seconds Predict + stage_seconds Score = 11"
    by simp
  ultimately show ?thesis
    using train_tiny [of 100] by blast
qed

text \<open>
  Claim C4, as the code has it: the reported training time is the span of the whole
  function body, from its entry (before the data is converted) to the end of the
  scoring: it includes the time of prediction and of the evaluation scores.
\<close>

theorem training_time_spans_whole_body:
  assumes "train_fasttext tk dur now train_data test_data epochs = Inr (m, training_time)"
  shows "training_time =
           dur Prepare + dur Embed + dur Vectorize + dur Fit + dur Predict + dur Score"
  using assms
  by (auto simp: train_fasttext_def fasttext_stage_def Let_def and_then_eq_Inr)

theorem training_time_spans_whole_body_witness:
  "train_fasttext toy_toolkit stage_seconds 100 tiny_train tiny_test 3
     = Inr ((Finite 0, 0, 0, 0), 21)
   \<and> stage_seconds Prepare + stage_seconds Embed + stage_seconds Vectorize
         + stage_seconds Fit + stage_seconds Predict + stage_seconds Score = 21"
proof -
  have r: "train_fasttext toy_toolkit stage_seconds 100 tiny_train tiny_test 3
     = Inr ((Finite 0, 0, 0, 0), 21)"
    by (rule train_tiny)
  have "21 = stage_seconds Prepare + stage_seconds Embed + stage_seconds Vectorize
         + stage_seconds Fit + stage_seconds Predict + stage_seconds Score"
    by (rule training_time_spans_whole_body [OF r])
  then have "stage_seconds Prepare + stage_seconds Embed + stage_seconds Vectorize
         + stage_seconds Fit + stage_seconds Predict + stage_seconds Score = 21"
    by (rule sym)
  with r show ?thesis
    by blast
qed

section \<open>Properties of the benchmark runner\<close>

lemma load_try_columns:
  assumes "load_try eng p t = Inr d"
  shows "columns d = [''text'', ''label'']"
proof (cases "read_csv eng p")
  case (Inl e)
  with assms show ?thesis
    by (simp add: load_try_def)
next
  case (Inr d0)
  show ?thesis
    using assms unfolding load_try_char [OF Inr]
    by (auto split: if_splits)
qed

lemma sample_columns: "columns sample_dataset = [''text'', ''label'']"
  by (simp add: sample_dataset_def createDataFrame_def)

lemma load_columns:
  assumes "load_qqp_data eng p t = Inr d"
  shows "columns d = [''text'', ''label'']"
  using assms load_try_columns [of eng p t]
  by (auto simp: load_qqp_data_def sample_columns split: sum.splits)

lemma main_inputs_total: "\<exists>train_data test_data. main_inputs eng a = Inr (train_data, test_data)"
proof -
  obtain d1 where d1: "load_qqp_data eng (data_file a) False = Inr d1"
    using load_never_raises by blast
  obtain d2 where d2: "load_qqp_data eng (test_file a) False = Inr d2"
    using load_never_raises by blast
  show ?thesis
    by (simp add: main_inputs_def d1 d2 filter_df_def select_df_def
        load_columns [OF d1] load_columns [OF d2])
qed

lemma stage_created:
  assumes "concat (map preprocess_text (map (\<lambda>(t, l). Str t) xs)) \<noteq> []"
  shows "fasttext_stage toy_toolkit dur now (createDataFrame xs [''text'', ''label''])
           (createDataFrame ys [''text'', ''label'']) ep
     = Inr (createDataFrame xs [''text'', ''label''], createDataFrame ys [''text'', ''label''],
            projr (toy_FastText (map preprocess_text (map (\<lambda>(t, l). Str t) xs)) ep),
            now + dur Prepare + dur Embed)"
proof -
  have t: "texts (createDataFrame xs [''text'', ''label'']) = map (\<lambda>(t, l). Str t) xs"
    by (simp add: texts_def frame2_simps o_def split_def)
  have c: "column (createDataFrame xs [''text'', ''label'']) ''text''
             = Inr (map (\<lambda>(t, l). Str t) xs)"
    using column_texts [of "createDataFrame xs [''text'', ''label'']"] t
    by (simp add: frame2_simps)
  have f: "toy_FastText (map preprocess_text (map (\<lambda>(t, l). Str t) xs)) ep
             = Inr (projr (toy_FastText (map preprocess_text (map (\<lambda>(t, l). Str t) xs)) ep))"
    using assms by (simp only: toy_FastText_def if_False sum.sel)
  show ?thesis
    apply (simp only: fasttext_stage_def prepare_created c and_then_Inr prod.case Let_def
        toy_toolkit_simps)
    apply (subst f)
    apply (simp only: and_then_Inr)
    done
qed

lemma first_sample_tokens:
  "py_split (py_lower ''How do I improve my English? [SEP] What are some ways to improve my English?'')
     = [''how'', ''do'', ''i'', ''improve'', ''my'', ''english?'', ''[sep]'', ''what'', ''are'',
        ''some'', ''ways'', ''to'', ''improve'', ''my'', ''english?'']"
  by code_simp

lemma one_class_tokens:
  "py_split (py_lower ''How old are you? [SEP] What is your age?'')
     = [''how'', ''old'', ''are'', ''you?'', ''[sep]'', ''what'', ''is'', ''your'', ''age?'']"
  by code_simp

lemma load_one_class:
  "load_qqp_data (table_engine one_class_table) p False =
     Inr (createDataFrame [(''How old are you? [SEP] What is your age?'', 1)] [''text'', ''label''])"
proof -
  have t: "read_csv (table_engine one_class_table) p = Inr one_class_table"
    by simp
  show ?thesis
    unfolding load_qqp_data_def load_try_char [OF t]
    by (simp add: resolves_def kept_rows_def labelled_def one_class_table_def text_of_def
        label_of_def to_double_def valid_label_def frame2_simps)
qed

lemma main_inputs_one_class:
  "main_inputs (table_engine one_class_table) default_args =
     Inr (createDataFrame [(''How old are you? [SEP] What is your age?'', 1)] [''text'', ''label''],
          createDataFrame [(''How old are you? [SEP] What is your age?'', 1)] [''text'', ''label''])"
  apply (simp only: main_inputs_def load_one_class and_then_Inr)
  apply (simp add: frame2_simps filter_df_def select_df_def count_df_def)
  done

lemma train_one_class:
  "train_fasttext toy_toolkit dur now
     (createDataFrame [(''How old are you? [SEP] What is your age?'', 1)] [''text'', ''label''])
     (createDataFrame [(''How old are you? [SEP] What is your age?'', 1)] [''text'', ''label''])
     ep
   = Inl (ValueError ''invalid training input'')"
proof -
  have ne: "concat (map preprocess_text
              (map (\<lambda>(t, l). Str t) [(''How old are you? [SEP] What is your age?'', 1::real)]))
            \<noteq> []"
    by (simp add: one_class_tokens)
  show ?thesis
    apply (simp only: train_fasttext_def stage_created [OF ne] Let_def and_then_Inr prod.case)
    apply (simp only: frame2_simps column_def vectors_total)
    apply (simp add: doubles_def)
    apply (simp add: toy_fit_def)
    done
qed

text \<open>
  Claim C3 says that the runner records a failed variant and goes on. \<open>main\<close> calls
  \<open>train_fasttext\<close> with no handler and has no other variant: when the classifier
  rejects the training input with a \<open>ValueError\<close>, \<open>main\<close> raises it and builds no table.
\<close>

theorem runner_propagates_counterexample:
  "main (table_engine one_class_table) toy_toolkit stage_seconds 0 default_args
     = Inl (ValueError ''invalid training input'')"
  by (simp only: main_def main_inputs_one_class and_then_Inr prod.case train_one_class
      and_then_Inl)

text \<open>
  Claim C3, as the code has it: \<open>main\<close> always obtains its two datasets and runs the
  single FastText variant; an exception of that run is raised by \<open>main\<close>, and a
  successful run gives a table of exactly one entry, named FastText.
\<close>

theorem runner_single_variant:
  "\<exists>train_data test_data.
      main_inputs eng a = Inr (train_data, test_data)
      \<and> main eng tk dur now a =
          (case train_fasttext tk dur now train_data test_data (fasttext_epochs a) of
             Inl e \<Rightarrow> Inl e
           | Inr (m, t) \<Rightarrow>
               Inr \<lparr>Model = [''FastText''], Accuracy = [fst m], Precision = [fst (snd m)],
                    Recall = [fst (snd (snd m))], F1 = [snd (snd (snd m))],
                    Training_Time = [t]\<rparr>)"
proof -
  obtain train_data test_data where i: "main_inputs eng a = Inr (train_data, test_data)"
    using main_inputs_total by blast
  have "main eng tk dur now a =
          (case train_fasttext tk dur now train_data test_data (fasttext_epochs a) of
             Inl e \<Rightarrow> Inl e
           | Inr (m, t) \<Rightarrow>
               Inr \<lparr>Model = [''FastText''], Accuracy = [fst m], Precision = [fst (snd m)],
                    Recall = [fst (snd (snd m))], F1 = [snd (snd (snd m))],
                    Training_Time = [t]\<rparr>)"
    by (simp add: main_def i and_then_def split: sum.splits prod.splits)
  with i show ?thesis
    by blast
qed

lemma main_inputs_unreachable:
  "main_inputs unreachable_engine default_args = Inr (sample_dataset, sample_dataset)"
proof -
  have l: "load_qqp_data unreachable_engine p False = Inr sample_dataset" for p
    by (simp add: load_qqp_data_def load_try_def)
  show ?thesis
    apply (simp only: main_inputs_def l and_then_Inr)
    apply (simp add: sample_dataset_def sample_data_def frame2_simps filter_df_def select_df_def
        count_df_def)
    done
qed

lemma train_sample:
  "train_fasttext toy_toolkit stage_seconds now sample_dataset sample_dataset ep
   = Inr ((Finite (2 / 3), 2 / 3, 2 / 3, 2 / 3), 21)"
proof -
  have ne: "concat (map preprocess_text (map (\<lambda>(t, l). Str t) sample_data)) \<noteq> []"
    by (simp add: sample_data_def first_sample_tokens)
  show ?thesis
    apply (simp only: train_fasttext_def sample_dataset_def stage_created [OF ne] Let_def
        and_then_Inr prod.case)
    apply (simp only: frame2_simps column_def sample_data_def vectors_total)
    apply (simp add: doubles_def)
    apply (simp add: toy_fit_def)
    apply (simp add: toy_predict_def)
    apply (simp add: accuracy_def np_eq_def)
    apply (simp add: toy_score_def)
    done
qed

theorem runner_single_variant_witness:
  "main_inputs unreachable_engine default_args = Inr (sample_dataset, sample_dataset)
   \<and> main unreachable_engine toy_toolkit stage_seconds 0 default_args =
       Inr \<lparr>Model = [''FastText''], Accuracy = [Finite (2 / 3)], Precision = [2 / 3],
            Recall = [2 / 3], F1 = [2 / 3], Training_Time = [21]\<rparr>"
proof -
  obtain train_data test_data where
    i: "main_inputs unreachable_engine default_args = Inr (train_data, test_data)" and
    m: "main unreachable_engine toy_toolkit stage_seconds 0 default_args =
          (case train_fasttext toy_toolkit stage_seconds 0 train_data test_data
                  (fasttext_epochs default_args) of
             Inl e \<Rightarrow> Inl e
           | Inr (m, t) \<Rightarrow>
               Inr \<lparr>Model = [''FastText''], Accuracy = [fst m], Precision = [fst (snd m)],
                    Recall = [fst (snd (snd m))], F1 = [snd (snd (snd m))],
                    Training_Time = [t]\<rparr>)"
    using runner_single_variant [of unreachable_engine default_args toy_toolkit stage_seconds 0]
    by blast
  from i have d: "train_data = sample_dataset" "test_data = sample_dataset"
    by (simp_all add: main_inputs_unreachable)
  show ?thesis
    unfolding m d by (simp add: main_inputs_unreachable train_sample)
qed

end
